theory Spec2Isabelle
  imports Main
begin

section \<open>Values and errors\<close>

text \<open>
  The contract and the expectation suite are what \<^verbatim>\<open>yaml.safe_load\<close> and
  \<^verbatim>\<open>json.load\<close> return: nested Python values. Dictionaries keep their insertion
  order, so a dictionary is an association list (its keys are pairwise different; lookup
  takes the first match). Keys are strings. Floating point numbers and dates are left out:
  no code path modelled here looks inside them.
\<close>

datatype pyval =
    PNone
  | PBool bool
  | PInt int
  | PStr string
  | PList "pyval list"
  | PDict "(string \<times> pyval) list"

text \<open>
  The exceptions of the modelled paths. \<open>ConfigParseError\<close> is the name the specification
  uses for a failed load; no statement of the source raises it. \<open>ExpectationNotFoundError\<close>
  is the expectation library's, raised by its registry on a name it does not know.
\<close>

datatype error =
    AttributeError
  | KeyError
  | TypeError
  | FileNotFoundError
  | YAMLError
  | ConfigParseError
  | ExpectationNotFoundError

text \<open>Python truthiness, as \<^verbatim>\<open>not x\<close> reads a value.\<close>

fun truthy :: "pyval \<Rightarrow> bool" where
  "truthy PNone = False"
| "truthy (PBool b) = b"
| "truthy (PInt i) = (i \<noteq> 0)"
| "truthy (PStr s) = (s \<noteq> [])"
| "truthy (PList xs) = (xs \<noteq> [])"
| "truthy (PDict kvs) = (kvs \<noteq> [])"

text \<open>\<^verbatim>\<open>d.get(key, default)\<close> on a dictionary.\<close>

definition dict_get :: "(string \<times> pyval) list \<Rightarrow> string \<Rightarrow> pyval \<Rightarrow> pyval" where
  "dict_get d key dflt = (case map_of d key of None \<Rightarrow> dflt | Some v \<Rightarrow> v)"

section \<open>The dataset\<close>

text \<open>
  A data frame is a table of named columns. Column labels are unique (the CSV reader
  renames repeated headers), so the frame is a partial map from label to column; a cell is
  \<open>None\<close> when it is null (NaN, None, NaT) and \<open>Some\<close> of its text otherwise.
  \<^verbatim>\<open>column in df.columns\<close> is \<open>df column \<noteq> None\<close>, and
  \<^verbatim>\<open>df[column].isnull().any()\<close> is \<open>isnull_any\<close> of the column.
\<close>

type_synonym cell = "string option"

type_synonym dataframe = "string \<rightharpoonup> cell list"

definition isnull_any :: "cell list \<Rightarrow> bool" where
  "isnull_any series = (None \<in> set series)"

section \<open>validate_schema (src/utils.py)\<close>

definition missing_msg :: "string \<Rightarrow> string" where
  "missing_msg column = ''Missing required column: '' @ column"

definition null_msg :: "string \<Rightarrow> string" where
  "null_msg column = ''Column '' @ column @ '' has null values but nullable=false''"

text \<open>
  One pass of the loop body on the item \<open>(column, rules)\<close>, with the list \<open>errors\<close>
  built so far. An absent column appends its message and goes on to the next item without
  touching \<open>rules\<close>. Otherwise \<^verbatim>\<open>rules.get("nullable", True)\<close> needs \<open>rules\<close> to be a
  dictionary (any other value has no \<^verbatim>\<open>get\<close>: AttributeError), and the column is
  inspected only when the flag is falsy.
\<close>

definition check_column :: "dataframe \<Rightarrow> string \<times> pyval \<Rightarrow> string list \<Rightarrow> error + string list" where
  "check_column df item errors =
     (case df (fst item) of
        None \<Rightarrow> Inr (errors @ [missing_msg (fst item)])
      | Some series \<Rightarrow>
          (case snd item of
             PDict rules \<Rightarrow>
               if \<not> truthy (dict_get rules ''nullable'' (PBool True)) \<and> isnull_any series
               then Inr (errors @ [null_msg (fst item)])
               else Inr errors
           | _ \<Rightarrow> Inl AttributeError))"

text \<open>The \<^verbatim>\<open>for column, rules in schema.items()\<close> loop; an exception ends it.\<close>

fun check_columns :: "dataframe \<Rightarrow> (string \<times> pyval) list \<Rightarrow> string list \<Rightarrow> error + string list" where
  "check_columns df [] errors = Inr errors"
| "check_columns df (item # rest) errors =
     (case check_column df item errors of
        Inl e \<Rightarrow> Inl e
      | Inr errors' \<Rightarrow> check_columns df rest errors')"

text \<open>
  \<^verbatim>\<open>schema = contract.get("schema", {})\<close>, then the loop over \<^verbatim>\<open>schema.items()\<close>
  (AttributeError when the value under \<^verbatim>\<open>"schema"\<close> is not a dictionary), then
  \<^verbatim>\<open>return len(errors) == 0, errors\<close>.
\<close>

definition validate_schema :: "dataframe \<Rightarrow> (string \<times> pyval) list \<Rightarrow> error + bool \<times> string list" where
  "validate_schema df contract =
     (case dict_get contract ''schema'' (PDict []) of
        PDict schema \<Rightarrow>
          (case check_columns df schema [] of
             Inl e \<Rightarrow> Inl e
           | Inr errors \<Rightarrow> Inr (length errors = 0, errors))
      | _ \<Rightarrow> Inl AttributeError)"

text \<open>
  The same call with the caller's two objects in a store that every statement takes and
  hands on. The body assigns to neither object nor to anything reachable from them:
  \<^verbatim>\<open>get\<close>, \<^verbatim>\<open>in\<close> and \<^verbatim>\<open>isnull\<close> read, and the only \<^verbatim>\<open>append\<close> is on the
  list \<^verbatim>\<open>errors\<close>, which each call creates afresh and which is local until it is
  returned.
\<close>

record pystate =
  st_df :: dataframe
  st_contract :: "(string \<times> pyval) list"

definition check_column_st ::
  "string \<times> pyval \<Rightarrow> string list \<Rightarrow> pystate \<Rightarrow> (error + string list) \<times> pystate" where
  "check_column_st item errors s =
     (case st_df s (fst item) of
        None \<Rightarrow> (Inr (errors @ [missing_msg (fst item)]), s)
      | Some series \<Rightarrow>
          (case snd item of
             PDict rules \<Rightarrow>
               if \<not> truthy (dict_get rules ''nullable'' (PBool True)) \<and> isnull_any series
               then (Inr (errors @ [null_msg (fst item)]), s)
               else (Inr errors, s)
           | _ \<Rightarrow> (Inl AttributeError, s)))"

fun check_columns_st ::
  "(string \<times> pyval) list \<Rightarrow> string list \<Rightarrow> pystate \<Rightarrow> (error + string list) \<times> pystate" where
  "check_columns_st [] errors s = (Inr errors, s)"
| "check_columns_st (item # rest) errors s =
     (case check_column_st item errors s of
        (Inl e, s') \<Rightarrow> (Inl e, s')
      | (Inr errors', s') \<Rightarrow> check_columns_st rest errors' s')"

definition validate_schema_call :: "pystate \<Rightarrow> (error + bool \<times> string list) \<times> pystate" where
  "validate_schema_call s =
     (case dict_get (st_contract s) ''schema'' (PDict []) of
        PDict schema \<Rightarrow>
          (case check_columns_st schema [] s of
             (Inl e, s') \<Rightarrow> (Inl e, s')
           | (Inr errors, s') \<Rightarrow> (Inr (length errors = 0, errors), s'))
      | _ \<Rightarrow> (Inl AttributeError, s))"

section \<open>The contract as the specification describes it\<close>

text \<open>
  A rule set is a mapping whose \<^verbatim>\<open>nullable\<close> entry, when there is one, is a boolean;
  a contract is a dictionary whose \<^verbatim>\<open>schema\<close> entry, when there is one, maps column
  names to rule sets.
\<close>

fun wf_rules :: "pyval \<Rightarrow> bool" where
  "wf_rules (PDict rules) =
     (case map_of rules ''nullable'' of
        None \<Rightarrow> True
      | Some (PBool b) \<Rightarrow> True
      | Some _ \<Rightarrow> False)"
| "wf_rules _ = False"

definition wf_contract :: "(string \<times> pyval) list \<Rightarrow> bool" where
  "wf_contract contract =
     (case dict_get contract ''schema'' (PDict []) of
        PDict schema \<Rightarrow> list_all (\<lambda>item. wf_rules (snd item)) schema
      | _ \<Rightarrow> False)"

text \<open>The items of the schema, in the contract's order (none when there is no schema).\<close>

definition schema_of :: "(string \<times> pyval) list \<Rightarrow> (string \<times> pyval) list" where
  "schema_of contract =
     (case dict_get contract ''schema'' (PDict []) of PDict schema \<Rightarrow> schema | _ \<Rightarrow> [])"

text \<open>A rule set with \<^verbatim>\<open>nullable: false\<close>.\<close>

fun non_nullable :: "pyval \<Rightarrow> bool" where
  "non_nullable (PDict rules) = (map_of rules ''nullable'' = Some (PBool False))"
| "non_nullable _ = False"

text \<open>The column is in the dataset and at least one of its cells is null.\<close>

definition has_nulls :: "dataframe \<Rightarrow> string \<Rightarrow> bool" where
  "has_nulls df column = (case df column of None \<Rightarrow> False | Some series \<Rightarrow> isnull_any series)"

text \<open>
  The two cases of the specification in which a contract column is in violation, and the
  message each of them is reported with.
\<close>

definition violates :: "dataframe \<Rightarrow> string \<times> pyval \<Rightarrow> bool" where
  "violates df item =
     (df (fst item) = None \<or> (non_nullable (snd item) \<and> has_nulls df (fst item)))"

definition violation_msg :: "dataframe \<Rightarrow> string \<times> pyval \<Rightarrow> string" where
  "violation_msg df item =
     (if df (fst item) = None then missing_msg (fst item) else null_msg (fst item))"

text \<open>
  Two datasets agree on a column when it is present in both or absent from both, and, when
  present, null in the same rows.
\<close>

definition agree_on :: "dataframe \<Rightarrow> dataframe \<Rightarrow> string \<Rightarrow> bool" where
  "agree_on df1 df2 column =
     (map_option (map (\<lambda>cell. cell = None)) (df1 column) =
      map_option (map (\<lambda>cell. cell = None)) (df2 column))"

section \<open>load_data_contract (src/utils.py)\<close>

text \<open>
  The file system maps a path to the text of the file there. \<^verbatim>\<open>open(path, "r")\<close> raises
  FileNotFoundError when there is no file and changes nothing otherwise. The YAML parser
  is the library's: it is a parameter, a partial function from text to values, undefined
  on a malformed document, where \<^verbatim>\<open>yaml.safe_load\<close> raises a YAMLError. The function
  has no \<^verbatim>\<open>try\<close>: both exceptions leave it as they are. The file system is returned
  with the result.
\<close>

type_synonym filesystem = "string \<rightharpoonup> string"

definition default_contract_path :: string where
  "default_contract_path = ''config/data_contract.yaml''"

definition load_data_contract ::
  "(string \<rightharpoonup> pyval) \<Rightarrow> filesystem \<Rightarrow> string \<Rightarrow> (error + pyval) \<times> filesystem" where
  "load_data_contract safe_load fs contract_path =
     (case fs contract_path of
        None \<Rightarrow> (Inl FileNotFoundError, fs)
      | Some text \<Rightarrow>
          (case safe_load text of
             None \<Rightarrow> (Inl YAMLError, fs)
           | Some document \<Rightarrow> (Inr document, fs)))"

section \<open>The expectation loop (scripts/validate_data.py, main)\<close>









section \<open>Example contracts and datasets\<close>

definition churn_contract :: "(string \<times> pyval) list" where
  "churn_contract =
     [(''schema'', PDict [(''customerID'', PDict [(''nullable'', PBool False)]),
                          (''gender'', PDict [(''nullable'', PBool True)])])]"

definition clean_df :: dataframe where
  "clean_df = [''customerID'' \<mapsto> [Some ''7590'', Some ''5575''], ''gender'' \<mapsto> [Some ''F'', None]]"

definition null_id_df :: dataframe where
  "null_id_df = [''customerID'' \<mapsto> [Some ''7590'', None], ''gender'' \<mapsto> [Some ''F'', Some ''M'']]"

definition charges_contract :: "(string \<times> pyval) list" where
  "charges_contract = [(''schema'', PDict [(''TotalCharges'', PDict [(''nullable'', PBool False)])])]"

definition two_bad_df :: dataframe where
  "two_bad_df = [''gender'' \<mapsto> [Some ''F'']]"

definition three_contract :: "(string \<times> pyval) list" where
  "three_contract =
     [(''schema'', PDict [(''TotalCharges'', PDict []),
                          (''gender'', PDict [(''nullable'', PBool False)]),
                          (''customerID'', PDict [(''nullable'', PBool False)])])]"

definition empty_df :: dataframe where
  "empty_df = [''customerID'' \<mapsto> [], ''gender'' \<mapsto> []]"

definition no_schema_contract :: "(string \<times> pyval) list" where
  "no_schema_contract = [(''version'', PInt 1)]"

definition churn_state :: pystate where
  "churn_state = \<lparr>st_df = null_id_df, st_contract = churn_contract\<rparr>"

definition contract_text :: string where
  "contract_text = ''schema: {customerID: {nullable: false}}''"

definition one_file_fs :: filesystem where
  "one_file_fs = [''config/data_contract.yaml'' \<mapsto> contract_text, ''config/broken.yaml'' \<mapsto> ''schema: {'']"

definition tiny_safe_load :: "string \<rightharpoonup> pyval" where
  "tiny_safe_load =
     [contract_text \<mapsto> PDict [(''schema'', PDict [(''customerID'', PDict [(''nullable'', PBool False)])])]]"






section \<open>Properties of validate_schema\<close>

lemma wf_rules_falsy:
  "wf_rules rules \<Longrightarrow>
   \<exists>d. rules = PDict d \<and> (\<not> truthy (dict_get d ''nullable'' (PBool True))) = non_nullable rules"
  by (cases rules) (auto simp: dict_get_def split: option.splits pyval.splits)

lemma check_column_wf:
  assumes "wf_rules (snd item)"
  shows "check_column df item errors =
           Inr (errors @ (if violates df item then [violation_msg df item] else []))"
proof -
  from wf_rules_falsy [OF assms] obtain d where
    d: "snd item = PDict d"
       "(\<not> truthy (dict_get d ''nullable'' (PBool True))) = non_nullable (PDict d)"
    by auto
  show ?thesis
  proof (cases "df (fst item)")
    case None
    then show ?thesis by (simp add: check_column_def violates_def violation_msg_def)
  next
    case (Some series)
    with d show ?thesis
      by (simp add: check_column_def violates_def violation_msg_def has_nulls_def del: non_nullable.simps)
  qed
qed

lemma check_columns_wf:
  "list_all (\<lambda>item. wf_rules (snd item)) schema \<Longrightarrow>
   check_columns df schema errors =
     Inr (errors @ map (violation_msg df) (filter (violates df) schema))"
proof (induction schema arbitrary: errors)
  case Nil
  then show ?case by simp
next
  case (Cons item rest)
  then show ?case by (simp add: check_column_wf)
qed

lemma validate_schema_wf:
  assumes "wf_contract contract"
  shows "validate_schema df contract =
           Inr (filter (violates df) (schema_of contract) = [],
                map (violation_msg df) (filter (violates df) (schema_of contract)))"
proof -
  from assms obtain schema where
    s: "dict_get contract ''schema'' (PDict []) = PDict schema"
       "list_all (\<lambda>item. wf_rules (snd item)) schema"
    by (auto simp: wf_contract_def split: pyval.splits)
  then show ?thesis
    by (simp add: validate_schema_def schema_of_def check_columns_wf)
qed

lemma wf_churn_contract: "wf_contract churn_contract"
  by (simp add: wf_contract_def churn_contract_def dict_get_def)

lemma schema_of_churn_contract:
  "schema_of churn_contract =
     [(''customerID'', PDict [(''nullable'', PBool False)]), (''gender'', PDict [(''nullable'', PBool True)])]"
  by (simp add: schema_of_def churn_contract_def dict_get_def)

text \<open>
  Claim C1. For a contract of the data model: when every column of the contract's schema
  is present in the dataset and every column whose rule set has \<^verbatim>\<open>nullable: false\<close> has no null value,
  \<^verbatim>\<open>validate_schema\<close> returns \<open>(True, [])\<close>.
\<close>

theorem validate_schema_passes:
  assumes "wf_contract contract"
    and "\<forall>item \<in> set (schema_of contract).
           df (fst item) \<noteq> None \<and> (non_nullable (snd item) \<longrightarrow> \<not> has_nulls df (fst item))"
  shows "validate_schema df contract = Inr (True, [])"
proof -
  have "filter (violates df) (schema_of contract) = []"
    using assms(2) by (auto simp: filter_empty_conv violates_def)
  with validate_schema_wf [OF assms(1), of df] show ?thesis by simp
qed

theorem validate_schema_passes_witness:
  "wf_contract churn_contract
   \<and> list_all (\<lambda>item. clean_df (fst item) \<noteq> None \<and> (\<not> non_nullable (snd item) \<or> \<not> has_nulls clean_df (fst item)))
        (schema_of churn_contract)
   \<and> validate_schema clean_df churn_contract = Inr (True, [])"
proof -
  have h: "\<forall>item \<in> set (schema_of churn_contract).
             clean_df (fst item) \<noteq> None \<and> (non_nullable (snd item) \<longrightarrow> \<not> has_nulls clean_df (fst item))"
    by (simp add: schema_of_churn_contract clean_df_def has_nulls_def isnull_any_def)
  from validate_schema_passes [OF wf_churn_contract h] h wf_churn_contract
  show ?thesis by (simp add: list_all_iff)
qed

lemma wf_charges_contract: "wf_contract charges_contract"
  by (simp add: wf_contract_def charges_contract_def dict_get_def)

lemma schema_of_charges_contract:
  "schema_of charges_contract = [(''TotalCharges'', PDict [(''nullable'', PBool False)])]"
  by (simp add: schema_of_def charges_contract_def dict_get_def)

text \<open>
  Claim C2. For a contract of the data model, the number of violations returned is the
  number of schema columns that are
  absent from the dataset or have \<^verbatim>\<open>nullable: false\<close> and a null value; every
  violation returned is the message of such a column; and the success flag is true exactly
  when that number is zero.
\<close>

theorem validate_schema_count:
  assumes "wf_contract contract"
  shows "\<exists>success violations.
           validate_schema df contract = Inr (success, violations)
           \<and> length violations = length (filter (violates df) (schema_of contract))
           \<and> (\<forall>v \<in> set violations.
                 \<exists>item \<in> set (schema_of contract). violates df item \<and> v = violation_msg df item)
           \<and> (success \<longleftrightarrow> length (filter (violates df) (schema_of contract)) = 0)"
  using validate_schema_wf [OF assms, of df] by auto

theorem validate_schema_count_witness:
  "wf_contract churn_contract
   \<and> length (filter (violates null_id_df) (schema_of churn_contract)) = 1
   \<and> validate_schema null_id_df churn_contract =
       Inr (False, [''Column customerID has null values but nullable=false''])"
proof -
  have n: "filter (violates null_id_df) (schema_of churn_contract) =
             [(''customerID'', PDict [(''nullable'', PBool False)])]"
    by (simp add: schema_of_churn_contract violates_def null_id_df_def has_nulls_def isnull_any_def)
  from validate_schema_count [OF wf_churn_contract, of null_id_df]
  obtain success violations where
    r: "validate_schema null_id_df churn_contract = Inr (success, violations)"
       "length violations = length (filter (violates null_id_df) (schema_of churn_contract))"
       "\<forall>v \<in> set violations. \<exists>item \<in> set (schema_of churn_contract).
           violates null_id_df item \<and> v = violation_msg null_id_df item"
       "success \<longleftrightarrow> length (filter (violates null_id_df) (schema_of churn_contract)) = 0"
    by blast
  from r(2) n obtain v where v: "violations = [v]"
    by (cases violations) auto
  with r(3) have "v = ''Column customerID has null values but nullable=false''"
    by (auto simp: schema_of_churn_contract violates_def violation_msg_def null_id_df_def
          has_nulls_def isnull_any_def null_msg_def)
  with v r(1) r(4) n wf_churn_contract show ?thesis by simp
qed

lemma null_msg_inject: "null_msg a = null_msg b \<Longrightarrow> a = b"
  by (simp add: null_msg_def)

lemma missing_msg_neq_null_msg: "missing_msg a \<noteq> null_msg b"
  by (simp add: missing_msg_def null_msg_def)

text \<open>
  Claim C3. For a contract column that is absent from the dataset the loop appends exactly
  \<^verbatim>\<open>Missing required column: {name}\<close> and does not look at its rule set: the scenario of
  a single absent column returns that one message whatever its rule set is, and for a
  contract of the data model the result holds the
  missing-column message of an absent column and never a null-values message for it.
\<close>

theorem absent_column_missing_only:
  "(df column = None \<longrightarrow>
      check_column df (column, rules) errors = Inr (errors @ [''Missing required column: '' @ column])
      \<and> validate_schema df [(''schema'', PDict [(column, rules)])] =
            Inr (False, [''Missing required column: '' @ column]))
   \<and> (wf_contract contract \<and> (column, rules) \<in> set (schema_of contract) \<and> df column = None \<longrightarrow>
        (\<exists>violations. validate_schema df contract = Inr (False, violations)
           \<and> missing_msg column \<in> set violations
           \<and> null_msg column \<notin> set violations))"
proof (intro conjI impI)
  assume "df column = None"
  then show "check_column df (column, rules) errors = Inr (errors @ [''Missing required column: '' @ column])"
    by (simp add: check_column_def missing_msg_def)
next
  assume "df column = None"
  then show "validate_schema df [(''schema'', PDict [(column, rules)])] =
               Inr (False, [''Missing required column: '' @ column])"
    by (simp add: validate_schema_def dict_get_def check_column_def missing_msg_def)
next
  assume a: "wf_contract contract \<and> (column, rules) \<in> set (schema_of contract) \<and> df column = None"
  let ?bad = "filter (violates df) (schema_of contract)"
  from a have v: "violates df (column, rules)" by (simp add: violates_def)
  with a have mem: "(column, rules) \<in> set ?bad" by simp
  then have ne: "?bad \<noteq> []" by (metis empty_iff list.set(1))
  from mem a have m: "missing_msg column \<in> set (map (violation_msg df) ?bad)"
    by (force simp: violation_msg_def)
  have n: "null_msg column \<notin> set (map (violation_msg df) ?bad)"
  proof
    assume "null_msg column \<in> set (map (violation_msg df) ?bad)"
    then obtain item where i: "item \<in> set ?bad" "violation_msg df item = null_msg column"
      by auto
    show False
    proof (cases "df (fst item)")
      case None
      with i(2) show False by (simp add: violation_msg_def missing_msg_neq_null_msg)
    next
      case (Some series)
      with i(2) have "fst item = column"
        by (auto simp: violation_msg_def dest: null_msg_inject)
      with Some a show False by simp
    qed
  qed
  from validate_schema_wf [of contract df] a ne m n
  show "\<exists>violations. validate_schema df contract = Inr (False, violations)
           \<and> missing_msg column \<in> set violations \<and> null_msg column \<notin> set violations"
    by simp
qed

theorem absent_column_missing_only_witness:
  "null_id_df ''TotalCharges'' = None
   \<and> wf_contract charges_contract
   \<and> (''TotalCharges'', PDict [(''nullable'', PBool False)]) \<in> set (schema_of charges_contract)
   \<and> validate_schema null_id_df charges_contract = Inr (False, [''Missing required column: TotalCharges''])
   \<and> check_column null_id_df (''TotalCharges'', PDict [(''nullable'', PBool False)]) [] =
        Inr [''Missing required column: TotalCharges'']"
proof -
  have a: "null_id_df ''TotalCharges'' = None" by (simp add: null_id_df_def)
  have b: "(''TotalCharges'', PDict [(''nullable'', PBool False)]) \<in> set (schema_of charges_contract)"
    by (simp add: schema_of_charges_contract)
  from absent_column_missing_only [of null_id_df "''TotalCharges''" "PDict [(''nullable'', PBool False)]" "[]" charges_contract]
    a b wf_charges_contract
  show ?thesis by (simp add: charges_contract_def)
qed

lemma wf_three_contract: "wf_contract three_contract"
  by (simp add: wf_contract_def three_contract_def dict_get_def)

lemma schema_of_three_contract:
  "schema_of three_contract =
     [(''TotalCharges'', PDict []),
      (''gender'', PDict [(''nullable'', PBool False)]),
      (''customerID'', PDict [(''nullable'', PBool False)])]"
  by (simp add: schema_of_def three_contract_def dict_get_def)

text \<open>
  Claim C4. The violations come in the order of the contract's schema: for a contract of
  the data model the list returned is
  the list of the violating columns' messages, in schema order, so when \<open>a\<close> precedes \<open>b\<close>
  in the schema and both are in violation, the message of \<open>a\<close> precedes the message of
  \<open>b\<close>.
\<close>

theorem violations_in_contract_order:
  assumes "wf_contract contract"
  shows "\<exists>success violations.
           validate_schema df contract = Inr (success, violations)
           \<and> violations = map (violation_msg df) (filter (violates df) (schema_of contract))
           \<and> (\<forall>before a between b after.
                 schema_of contract = before @ a # between @ b # after
                 \<and> violates df a \<and> violates df b \<longrightarrow>
                 (\<exists>us vs ws. violations = us @ violation_msg df a # vs @ violation_msg df b # ws))"
proof -
  let ?vs = "map (violation_msg df) (filter (violates df) (schema_of contract))"
  have ord: "\<forall>before a between b after.
               schema_of contract = before @ a # between @ b # after
               \<and> violates df a \<and> violates df b \<longrightarrow>
               (\<exists>us vs ws. ?vs = us @ violation_msg df a # vs @ violation_msg df b # ws)"
  proof (intro allI impI, elim conjE)
    fix before a between b after
    assume "schema_of contract = before @ a # between @ b # after" "violates df a" "violates df b"
    then have
      "?vs = map (violation_msg df) (filter (violates df) before) @ violation_msg df a #
             map (violation_msg df) (filter (violates df) between) @ violation_msg df b #
             map (violation_msg df) (filter (violates df) after)"
      by simp
    then show "\<exists>us vs ws. ?vs = us @ violation_msg df a # vs @ violation_msg df b # ws"
      by (intro exI)
  qed
  show ?thesis
    by (rule exI [of _ "filter (violates df) (schema_of contract) = []"], rule exI [of _ ?vs])
       (intro conjI validate_schema_wf [OF assms] refl ord)
qed

theorem violations_in_contract_order_witness:
  "wf_contract three_contract
   \<and> schema_of three_contract =
       [] @ (''TotalCharges'', PDict []) # [(''gender'', PDict [(''nullable'', PBool False)])]
          @ (''customerID'', PDict [(''nullable'', PBool False)]) # []
   \<and> violates two_bad_df (''TotalCharges'', PDict [])
   \<and> violates two_bad_df (''customerID'', PDict [(''nullable'', PBool False)])
   \<and> validate_schema two_bad_df three_contract =
       Inr (False, [''Missing required column: TotalCharges'', ''Missing required column: customerID''])"
proof -
  from violations_in_contract_order [OF wf_three_contract, of two_bad_df]
  obtain success where
    r: "validate_schema two_bad_df three_contract =
          Inr (success, map (violation_msg two_bad_df) (filter (violates two_bad_df) (schema_of three_contract)))"
    by (elim exE conjE) simp
  have v: "map (violation_msg two_bad_df) (filter (violates two_bad_df) (schema_of three_contract)) =
             [''Missing required column: TotalCharges'', ''Missing required column: customerID'']"
    by (simp add: schema_of_three_contract violates_def violation_msg_def two_bad_df_def
          has_nulls_def isnull_any_def missing_msg_def)
  have c: "validate_schema two_bad_df three_contract =
             Inr (False, [''Missing required column: TotalCharges'', ''Missing required column: customerID''])"
    by (simp add: validate_schema_def three_contract_def dict_get_def check_column_def
          two_bad_df_def isnull_any_def missing_msg_def)
  from r v c wf_three_contract show ?thesis
    by (simp add: schema_of_three_contract violates_def two_bad_df_def)
qed

lemma agree_on_present: "agree_on df1 df2 c \<Longrightarrow> (df1 c = None) = (df2 c = None)"
  by (cases "df1 c"; cases "df2 c") (simp_all add: agree_on_def)

lemma agree_on_nulls:
  assumes "agree_on df1 df2 c" "df1 c = Some s1" "df2 c = Some s2"
  shows "isnull_any s1 = isnull_any s2"
proof -
  from assms have "map (\<lambda>cell. cell = None) s1 = map (\<lambda>cell. cell = None) s2"
    by (simp add: agree_on_def)
  then have "set (map (\<lambda>cell. cell = None) s1) = set (map (\<lambda>cell. cell = None) s2)"
    by simp
  then have "(True \<in> (\<lambda>cell. cell = None) ` set s1) = (True \<in> (\<lambda>cell. cell = None) ` set s2)"
    by simp
  then show ?thesis by (auto simp: isnull_any_def image_iff)
qed

lemma check_column_agree:
  assumes "agree_on df1 df2 (fst item)"
  shows "check_column df1 item errors = check_column df2 item errors"
proof (cases "df1 (fst item)")
  case None
  with agree_on_present [OF assms] show ?thesis by (simp add: check_column_def)
next
  case s1: (Some s1)
  with agree_on_present [OF assms] obtain s2 where s2: "df2 (fst item) = Some s2" by auto
  from agree_on_nulls [OF assms s1 s2] s1 s2 show ?thesis
    by (cases "snd item") (simp_all add: check_column_def)
qed

lemma check_columns_agree:
  "\<forall>item \<in> set schema. agree_on df1 df2 (fst item) \<Longrightarrow>
   check_columns df1 schema errors = check_columns df2 schema errors"
proof (induction schema arbitrary: errors)
  case Nil
  then show ?case by simp
next
  case (Cons item rest)
  then have "check_column df1 item errors = check_column df2 item errors"
    by (simp add: check_column_agree)
  with Cons show ?case by (simp split: sum.splits)
qed

lemma agree_on_update: "c \<noteq> c' \<Longrightarrow> agree_on (df(c' \<mapsto> series)) df c"
  by (simp add: agree_on_def)

text \<open>
  Claim C8. The result depends only on the columns the contract names: two datasets that
  agree on each of them (same presence, same null pattern) get the same result, and adding
  a column the contract does not name changes nothing.
\<close>

theorem validate_schema_contract_columns_only:
  "((\<forall>item \<in> set (schema_of contract). agree_on df1 df2 (fst item)) \<longrightarrow>
      validate_schema df1 contract = validate_schema df2 contract)
   \<and> (extra \<notin> fst ` set (schema_of contract) \<longrightarrow>
        validate_schema (df(extra \<mapsto> series)) contract = validate_schema df contract)"
proof -
  have main: "validate_schema a contract = validate_schema b contract"
    if "\<forall>item \<in> set (schema_of contract). agree_on a b (fst item)" for a b
  proof (cases "dict_get contract ''schema'' (PDict [])")
    case (PDict schema)
    with that have "check_columns a schema [] = check_columns b schema []"
      by (simp add: schema_of_def check_columns_agree)
    with PDict show ?thesis by (simp add: validate_schema_def)
  qed (simp_all add: validate_schema_def)
  have upd: "\<forall>item \<in> set (schema_of contract). agree_on (df(extra \<mapsto> series)) df (fst item)"
    if "extra \<notin> fst ` set (schema_of contract)"
  proof
    fix item
    assume "item \<in> set (schema_of contract)"
    with that have "fst item \<noteq> extra" by (metis imageI)
    then show "agree_on (df(extra \<mapsto> series)) df (fst item)" by (rule agree_on_update)
  qed
  show ?thesis
  proof (intro conjI impI)
    assume "\<forall>item \<in> set (schema_of contract). agree_on df1 df2 (fst item)"
    then show "validate_schema df1 contract = validate_schema df2 contract" by (rule main)
  next
    assume "extra \<notin> fst ` set (schema_of contract)"
    then show "validate_schema (df(extra \<mapsto> series)) contract = validate_schema df contract"
      by (intro main upd)
  qed
qed

theorem validate_schema_contract_columns_only_witness:
  "list_all (\<lambda>item. agree_on null_id_df (null_id_df(''tenure'' \<mapsto> [None, Some ''34''])) (fst item))
      (schema_of churn_contract)
   \<and> ''tenure'' \<notin> fst ` set (schema_of churn_contract)
   \<and> validate_schema (null_id_df(''tenure'' \<mapsto> [None, Some ''34''])) churn_contract =
       validate_schema null_id_df churn_contract
   \<and> validate_schema null_id_df churn_contract =
       Inr (False, [''Column customerID has null values but nullable=false''])"
proof -
  have a: "\<forall>item \<in> set (schema_of churn_contract).
             agree_on null_id_df (null_id_df(''tenure'' \<mapsto> [None, Some ''34''])) (fst item)"
    by (simp add: schema_of_churn_contract agree_on_def)
  have b: "''tenure'' \<notin> fst ` set (schema_of churn_contract)"
    by (simp add: schema_of_churn_contract)
  have c: "validate_schema null_id_df churn_contract =
             Inr (False, [''Column customerID has null values but nullable=false''])"
    by (simp add: validate_schema_def churn_contract_def dict_get_def check_column_def
          null_id_df_def isnull_any_def null_msg_def)
  note inst = validate_schema_contract_columns_only
         [of churn_contract null_id_df "null_id_df(''tenure'' \<mapsto> [None, Some ''34''])"
             "''tenure''" null_id_df "[None, Some ''34'']"]
  from inst a have d: "validate_schema null_id_df churn_contract =
      validate_schema (null_id_df(''tenure'' \<mapsto> [None, Some ''34''])) churn_contract"
    by (elim conjE) (erule mp)
  from a have a': "list_all (\<lambda>item. agree_on null_id_df (null_id_df(''tenure'' \<mapsto> [None, Some ''34''])) (fst item))
      (schema_of churn_contract)"
    by (simp only: list_all_iff)
  from a' b d [symmetric] c show ?thesis by (intro conjI)
qed

text \<open>
  Claim C9. An empty contract, \<^verbatim>\<open>schema: {}\<close>, yields \<open>(True, [])\<close> whatever the
  dataset is.
\<close>

theorem validate_schema_empty_schema:
  "map_of contract ''schema'' = Some (PDict []) \<Longrightarrow> validate_schema df contract = Inr (True, [])"
  by (simp add: validate_schema_def dict_get_def)

theorem validate_schema_empty_schema_witness:
  "map_of [(''schema'', PDict [])] ''schema'' = Some (PDict [])
   \<and> validate_schema [''customerID'' \<mapsto> [Some ''7590'', None]] [(''schema'', PDict [])] = Inr (True, [])"
  using validate_schema_empty_schema [of "[(''schema'', PDict [])]" "[''customerID'' \<mapsto> [Some ''7590'', None]]"]
  by simp

lemma has_nulls_empty: "df c = Some [] \<Longrightarrow> \<not> has_nulls df c"
  by (simp add: has_nulls_def isnull_any_def)

text \<open>
  Claim C10. For a contract of the data model, a dataset that has every column of the
  contract and no rows passes, also when
  the contract has columns with \<^verbatim>\<open>nullable: false\<close>: no null is found in an empty
  column. A contract with no \<^verbatim>\<open>schema\<close> key at all passes as well, since the lookup
  falls back to an empty mapping.
\<close>

theorem validate_schema_zero_rows_or_no_schema:
  "(wf_contract contract \<and> (\<forall>item \<in> set (schema_of contract). df (fst item) = Some []) \<longrightarrow>
      validate_schema df contract = Inr (True, []))
   \<and> (map_of contract ''schema'' = None \<longrightarrow> validate_schema df contract = Inr (True, []))"
proof (intro conjI impI)
  assume a: "wf_contract contract \<and> (\<forall>item \<in> set (schema_of contract). df (fst item) = Some [])"
  then have "filter (violates df) (schema_of contract) = []"
    by (auto simp: filter_empty_conv violates_def has_nulls_empty)
  with validate_schema_wf [of contract df] a show "validate_schema df contract = Inr (True, [])"
    by simp
next
  assume "map_of contract ''schema'' = None"
  then show "validate_schema df contract = Inr (True, [])"
    by (simp add: validate_schema_def dict_get_def)
qed

theorem validate_schema_zero_rows_or_no_schema_witness:
  "wf_contract churn_contract
   \<and> list_all (\<lambda>item. empty_df (fst item) = Some []) (schema_of churn_contract)
   \<and> list_ex (\<lambda>item. non_nullable (snd item)) (schema_of churn_contract)
   \<and> validate_schema empty_df churn_contract = Inr (True, [])
   \<and> map_of no_schema_contract ''schema'' = None
   \<and> validate_schema null_id_df no_schema_contract = Inr (True, [])"
proof -
  have a: "\<forall>item \<in> set (schema_of churn_contract). empty_df (fst item) = Some []"
    by (simp add: schema_of_churn_contract empty_df_def)
  then have a': "list_all (\<lambda>item. empty_df (fst item) = Some []) (schema_of churn_contract)"
    by (simp only: list_all_iff)
  have n: "list_ex (\<lambda>item. non_nullable (snd item)) (schema_of churn_contract)"
    by (simp add: schema_of_churn_contract)
  have b: "map_of no_schema_contract ''schema'' = None"
    by (simp add: no_schema_contract_def)
  have c: "validate_schema empty_df churn_contract = Inr (True, [])"
    using validate_schema_zero_rows_or_no_schema [of churn_contract empty_df] wf_churn_contract a
    by blast
  have d: "validate_schema null_id_df no_schema_contract = Inr (True, [])"
    using validate_schema_zero_rows_or_no_schema [of no_schema_contract null_id_df] b
    by blast
  from wf_churn_contract a' n c b d show ?thesis by (intro conjI)
qed

subsection \<open>Contracts outside the data model\<close>

text \<open>
  The results above are about the contracts of the data model, \<open>wf_contract\<close>. On a
  dictionary that is not one of them the function does something else: a rule set that is
  not a mapping (here \<^verbatim>\<open>gender:\<close> with nothing after it) makes the call raise once
  the column is found in the dataset, and a flag that is falsy without being a boolean
  (here \<^verbatim>\<open>nullable: null\<close>) is read as \<^verbatim>\<open>false\<close>.
\<close>

lemma rules_not_a_mapping_raises:
  "validate_schema clean_df [(''schema'', PDict [(''gender'', PNone)])] = Inl AttributeError"
  by (simp add: validate_schema_def dict_get_def check_column_def clean_df_def)

lemma null_flag_read_as_false:
  "validate_schema clean_df [(''schema'', PDict [(''gender'', PDict [(''nullable'', PNone)])])] =
     Inr (False, [''Column gender has null values but nullable=false''])"
  by (simp add: validate_schema_def dict_get_def check_column_def clean_df_def isnull_any_def
        null_msg_def)

subsection \<open>The call leaves its arguments alone\<close>

lemma check_column_st_pure:
  "check_column_st item errors s = (check_column (st_df s) item errors, s)"
  by (simp add: check_column_st_def check_column_def split: option.splits pyval.splits)

lemma check_columns_st_pure:
  "check_columns_st schema errors s = (check_columns (st_df s) schema errors, s)"
proof (induction schema arbitrary: errors)
  case Nil
  then show ?case by simp
next
  case (Cons item rest)
  then show ?case
    by (cases "check_column (st_df s) item errors") (simp_all add: check_column_st_pure)
qed

lemma validate_schema_call_pure:
  "validate_schema_call s = (validate_schema (st_df s) (st_contract s), s)"
proof (cases "dict_get (st_contract s) ''schema'' (PDict [])")
  case (PDict schema)
  then show ?thesis
    by (cases "check_columns (st_df s) schema []")
       (simp_all add: validate_schema_call_def validate_schema_def check_columns_st_pure)
qed (simp_all add: validate_schema_call_def validate_schema_def)

text \<open>
  Claim C7. The validator is deterministic and keeps no state: a second call on what the
  first call left returns the same result, and after either call the dataset and the
  contract are what they were.
\<close>

theorem validate_schema_call_idempotent:
  "fst (validate_schema_call (snd (validate_schema_call s))) = fst (validate_schema_call s)
   \<and> snd (validate_schema_call s) = s
   \<and> snd (validate_schema_call (snd (validate_schema_call s))) = s
   \<and> fst (validate_schema_call s) = validate_schema (st_df s) (st_contract s)"
  by (simp add: validate_schema_call_pure)

theorem validate_schema_call_idempotent_witness:
  "fst (validate_schema_call (snd (validate_schema_call churn_state))) =
     Inr (False, [''Column customerID has null values but nullable=false''])
   \<and> fst (validate_schema_call churn_state) =
     Inr (False, [''Column customerID has null values but nullable=false''])
   \<and> snd (validate_schema_call (snd (validate_schema_call churn_state))) = churn_state"
proof -
  have c: "validate_schema (st_df churn_state) (st_contract churn_state) =
             Inr (False, [''Column customerID has null values but nullable=false''])"
    by (simp add: churn_state_def validate_schema_def churn_contract_def
          dict_get_def check_column_def null_id_df_def isnull_any_def null_msg_def)
  from validate_schema_call_idempotent [of churn_state] c show ?thesis by simp
qed

section \<open>Properties of load_data_contract\<close>

text \<open>
  Claim C6, as stated, fails: where there is no file at the path the function ends with
  the FileNotFoundError of \<^verbatim>\<open>open\<close>, and on a document the parser rejects it ends with
  the parser's YAMLError. Neither is a \<open>ConfigParseError\<close>.
\<close>

theorem load_data_contract_missing_not_ConfigParseError:
  "one_file_fs ''config/absent.yaml'' = None
   \<and> load_data_contract tiny_safe_load one_file_fs ''config/absent.yaml'' = (Inl FileNotFoundError, one_file_fs)
   \<and> fst (load_data_contract tiny_safe_load one_file_fs ''config/absent.yaml'') \<noteq> Inl ConfigParseError
   \<and> one_file_fs ''config/broken.yaml'' = Some ''schema: {''
   \<and> tiny_safe_load ''schema: {'' = None
   \<and> load_data_contract tiny_safe_load one_file_fs ''config/broken.yaml'' = (Inl YAMLError, one_file_fs)
   \<and> fst (load_data_contract tiny_safe_load one_file_fs ''config/broken.yaml'') \<noteq> Inl ConfigParseError"
  by (simp add: load_data_contract_def one_file_fs_def tiny_safe_load_def contract_text_def)

text \<open>
  Claim C6, amended. With no file at the path the function fails with FileNotFoundError;
  on a document the parser rejects it fails with YAMLError; on a well-formed document it
  returns the parsed structure as the parser gave it. In each case the file system is left
  as it was, and in no case is the failure a \<open>ConfigParseError\<close>.
\<close>

theorem load_data_contract_results:
  "(fs contract_path = None \<longrightarrow>
      load_data_contract safe_load fs contract_path = (Inl FileNotFoundError, fs))
   \<and> (fs contract_path = Some text \<and> safe_load text = None \<longrightarrow>
        load_data_contract safe_load fs contract_path = (Inl YAMLError, fs))
   \<and> (fs contract_path = Some text \<and> safe_load text = Some document \<longrightarrow>
        load_data_contract safe_load fs contract_path = (Inr document, fs))
   \<and> fst (load_data_contract safe_load fs contract_path) \<noteq> Inl ConfigParseError"
  by (simp add: load_data_contract_def split: option.splits)

theorem load_data_contract_results_witness:
  "one_file_fs default_contract_path = Some contract_text
   \<and> tiny_safe_load contract_text = Some (PDict [(''schema'', PDict [(''customerID'', PDict [(''nullable'', PBool False)])])])
   \<and> load_data_contract tiny_safe_load one_file_fs default_contract_path =
       (Inr (PDict [(''schema'', PDict [(''customerID'', PDict [(''nullable'', PBool False)])])]), one_file_fs)"
proof -
  have a: "one_file_fs default_contract_path = Some contract_text"
    by (simp add: one_file_fs_def default_contract_path_def)
  have b: "tiny_safe_load contract_text =
             Some (PDict [(''schema'', PDict [(''customerID'', PDict [(''nullable'', PBool False)])])])"
    by (simp add: tiny_safe_load_def)
  from load_data_contract_results
         [of one_file_fs default_contract_path tiny_safe_load contract_text
             "PDict [(''schema'', PDict [(''customerID'', PDict [(''nullable'', PBool False)])])]"]
       a b
  show ?thesis by simp
qed

section \<open>Properties of the expectation loop\<close>







end
